theory Spec2Isabelle
  imports Complex_Main
begin

section \<open>Python values used by AssetAllocation.py\<close>

text \<open>
  The program computes with Python floats (IEEE 754 binary64, round to nearest, ties to
  even) and shows them with \<open>str\<close>.  A float is modelled by its exact value: a finite
  float is the rational number it denotes, and the negative zero, the two infinities and
  the not-a-number value are constructors of their own.  Every operation rounds the exact
  rational result to the nearest binary64 value, as the hardware does.
\<close>

datatype py_error = ZeroDivisionError | IndexError | ValueError | OverflowError

datatype double = Fin rat | NegZero | PInf | NInf | NaN

definition is_zero :: "double \<Rightarrow> bool" where
  "is_zero x = (x = Fin 0 \<or> x = NegZero)"

definition is_inf :: "double \<Rightarrow> bool" where
  "is_inf x = (x = PInf \<or> x = NInf)"

fun sign_bit :: "double \<Rightarrow> bool" where
  "sign_bit (Fin q) = (q < 0)"
| "sign_bit NegZero = True"
| "sign_bit PInf = False"
| "sign_bit NInf = True"
| "sign_bit NaN = False"

fun the_rat :: "double \<Rightarrow> rat" where
  "the_rat (Fin q) = q"
| "the_rat _ = 0"

definition signed_zero :: "bool \<Rightarrow> double" where
  "signed_zero neg = (if neg then NegZero else Fin 0)"

definition signed_inf :: "bool \<Rightarrow> double" where
  "signed_inf neg = (if neg then NInf else PInf)"

subsection \<open>Rounding a rational to binary64\<close>

definition round_half_even :: "rat \<Rightarrow> int" where
  "round_half_even x =
     (let f = \<lfloor>x\<rfloor>; d = x - of_int f
      in if d < 1 / 2 then f else if 1 / 2 < d then f + 1
         else if even f then f else f + 1)"

text \<open>\<open>bit_length k\<close> is Python's \<open>int.bit_length\<close> on a positive integer.\<close>

function bit_length :: "int \<Rightarrow> int" where
  "bit_length k = (if k \<le> 0 then 0 else 1 + bit_length (k div 2))"
  by pat_completeness auto
termination
  by (relation "measure nat") auto

declare bit_length.simps [simp del]

text \<open>\<open>ilog2 a\<close> is the binary exponent of a positive rational: \<open>2 ^ ilog2 a \<le> a < 2 ^ (ilog2 a + 1)\<close>.\<close>

definition ilog2 :: "rat \<Rightarrow> int" where
  "ilog2 a =
     (let (p, q) = quotient_of a;
          k = bit_length p - bit_length q
      in if 2 powi k \<le> a then k else k - 1)"

text \<open>
  \<open>round64 q\<close> rounds a nonzero rational: 53 significant bits, exponents from \<open>-1022\<close>
  (below it the subnormal spacing \<open>2 ^ -1074\<close>), overflow to an infinity once the
  rounded value reaches \<open>2 ^ 1024\<close>, and a result that rounds to nothing keeps its sign
  as a zero.
\<close>

definition round64 :: "rat \<Rightarrow> double" where
  "round64 q =
     (if q = 0 then Fin 0
      else let a = \<bar>q\<bar>;
               e = max (ilog2 a) (- 1022);
               ulp = 2 powi (e - 52);
               n = round_half_even (a / ulp);
               r = of_int n * ulp
           in if 1023 < e \<or> (e = 1023 \<and> 2 ^ 53 \<le> n) then signed_inf (q < 0)
              else if n = 0 then signed_zero (q < 0)
              else Fin (if q < 0 then - r else r))"

subsection \<open>Arithmetic and comparison\<close>

definition fneg :: "double \<Rightarrow> double" where
  "fneg x = (case x of
      Fin q \<Rightarrow> (if q = 0 then NegZero else Fin (- q))
    | NegZero \<Rightarrow> Fin 0 | PInf \<Rightarrow> NInf | NInf \<Rightarrow> PInf | NaN \<Rightarrow> NaN)"

definition fabs :: "double \<Rightarrow> double" where
  "fabs x = (case x of
      Fin q \<Rightarrow> Fin \<bar>q\<bar>
    | NegZero \<Rightarrow> Fin 0 | PInf \<Rightarrow> PInf | NInf \<Rightarrow> PInf | NaN \<Rightarrow> NaN)"

definition fadd :: "double \<Rightarrow> double \<Rightarrow> double" where
  "fadd x y =
     (if x = NaN \<or> y = NaN then NaN
      else if is_inf x then (if is_inf y \<and> x \<noteq> y then NaN else x)
      else if is_inf y then y
      else if is_zero x \<and> is_zero y then (if x = NegZero \<and> y = NegZero then NegZero else Fin 0)
      else round64 (the_rat x + the_rat y))"

definition fsub :: "double \<Rightarrow> double \<Rightarrow> double" where
  "fsub x y = fadd x (fneg y)"

definition fmul :: "double \<Rightarrow> double \<Rightarrow> double" where
  "fmul x y =
     (if x = NaN \<or> y = NaN then NaN
      else if is_inf x \<or> is_inf y then
        (if is_zero x \<or> is_zero y then NaN else signed_inf (sign_bit x \<noteq> sign_bit y))
      else if is_zero x \<or> is_zero y then signed_zero (sign_bit x \<noteq> sign_bit y)
      else round64 (the_rat x * the_rat y))"

text \<open>Python raises on a float division by either zero, whatever the numerator.\<close>

definition fdiv :: "double \<Rightarrow> double \<Rightarrow> py_error + double" where
  "fdiv x y =
     (if is_zero y then Inl ZeroDivisionError
      else if x = NaN \<or> y = NaN then Inr NaN
      else if is_inf x then
        (if is_inf y then Inr NaN else Inr (signed_inf (sign_bit x \<noteq> sign_bit y)))
      else if is_inf y \<or> is_zero x then Inr (signed_zero (sign_bit x \<noteq> sign_bit y))
      else Inr (round64 (the_rat x / the_rat y)))"

text \<open>\<open>flt x y\<close> is Python's \<open>x < y\<close>: false when either side is not a number.\<close>

definition flt :: "double \<Rightarrow> double \<Rightarrow> bool" where
  "flt x y =
     (if x = NaN \<or> y = NaN then False
      else if x = PInf \<or> y = NInf then False
      else if x = NInf \<or> y = PInf then True
      else the_rat x < the_rat y)"

definition feq :: "double \<Rightarrow> double \<Rightarrow> bool" where
  "feq x y = (x \<noteq> NaN \<and> y \<noteq> NaN \<and> (x = y \<or> (is_zero x \<and> is_zero y)))"

subsection \<open>\<open>round(x, 2)\<close>, \<open>int(x)\<close>, \<open>sum\<close>\<close>

text \<open>
  \<open>round(x, 2)\<close> rounds the exact value of the float to two decimals, ties to even,
  and returns the float nearest to that decimal; zeros, infinities and not-a-number are
  returned as they are.
\<close>

definition py_round2 :: "double \<Rightarrow> double" where
  "py_round2 x = (case x of
      Fin q \<Rightarrow>
        (if q = 0 then Fin 0
         else let r = of_int (round_half_even (q * 100)) / 100
              in if r = 0 then signed_zero (q < 0) else round64 r)
    | _ \<Rightarrow> x)"

definition py_int :: "double \<Rightarrow> py_error + int" where
  "py_int x = (case x of
      Fin q \<Rightarrow> Inr (if 0 \<le> q then \<lfloor>q\<rfloor> else - \<lfloor>- q\<rfloor>)
    | NegZero \<Rightarrow> Inr 0
    | PInf \<Rightarrow> Inl OverflowError | NInf \<Rightarrow> Inl OverflowError
    | NaN \<Rightarrow> Inl ValueError)"

text \<open>\<open>sum\<close> adds from the left, starting from zero.\<close>

definition py_sum :: "double list \<Rightarrow> double" where
  "py_sum xs = foldl fadd (Fin 0) xs"


subsection \<open>\<open>str(x)\<close>: the shortest decimal that reads back as the same float\<close>

definition digit_char :: "int \<Rightarrow> char" where
  "digit_char d = ''0123456789'' ! nat d"

function digits10 :: "int \<Rightarrow> string" where
  "digits10 m = (if m < 10 then [digit_char m] else digits10 (m div 10) @ [digit_char (m mod 10)])"
  by pat_completeness auto
termination
  by (relation "measure nat") auto

declare digits10.simps [simp del]

text \<open>\<open>dec_exp a\<close> is the decimal exponent of a positive rational: \<open>10 ^ (dec_exp a - 1) \<le> a < 10 ^ dec_exp a\<close>.\<close>

definition dec_exp :: "rat \<Rightarrow> int" where
  "dec_exp a =
     (let (p, q) = quotient_of a;
          k = int (length (digits10 p)) - int (length (digits10 q))
      in if 10 powi k \<le> a then k + 1 else k)"

text \<open>
  \<open>find_shortest a k fuel n\<close> looks for a decimal of \<open>n\<close> significant digits that rounds
  to the float \<open>a\<close>, then of \<open>n + 1\<close> digits, and so on; of two candidates it takes the
  nearer one.  The result \<open>(m, ex)\<close> stands for \<open>m * 10 ^ ex\<close>.  Seventeen digits always
  suffice for a binary64 value.
\<close>

fun find_shortest :: "rat \<Rightarrow> int \<Rightarrow> nat \<Rightarrow> int \<Rightarrow> int \<times> int" where
  "find_shortest a k 0 n = (round_half_even (a / 10 powi (k - n)), k - n)"
| "find_shortest a k (Suc fuel) n =
     (let u = 10 powi (k - n);
          lo = \<lfloor>a / u\<rfloor>;
          hi = lo + 1;
          cl = (0 < lo \<and> round64 (of_int lo * u) = Fin a);
          ch = (round64 (of_int hi * u) = Fin a)
      in if cl \<and> ch then
           (if a - of_int lo * u < of_int hi * u - a then (lo, k - n)
            else if of_int hi * u - a < a - of_int lo * u then (hi, k - n)
            else if even lo then (lo, k - n) else (hi, k - n))
         else if cl then (lo, k - n)
         else if ch then (hi, k - n)
         else find_shortest a k fuel (n + 1))"

definition strip_zeros :: "string \<Rightarrow> string" where
  "strip_zeros s = rev (dropWhile (\<lambda>c. c = CHR ''0'') (rev s))"

text \<open>
  The layout of \<open>repr\<close>: the digits \<open>ds\<close> with the decimal point after \<open>decpt\<close> of them,
  in exponent notation when \<open>decpt \<le> -4\<close> or \<open>16 < decpt\<close>, and with \<open>.0\<close> added to
  a whole number.
\<close>

definition repr_layout :: "string \<Rightarrow> int \<Rightarrow> string" where
  "repr_layout ds decpt =
     (let n = int (length ds) in
      if decpt \<le> - 4 \<or> 16 < decpt then
        (let e = decpt - 1;
             es = digits10 \<bar>e\<bar>
         in (if 1 < n then hd ds # CHR ''.'' # tl ds else ds)
            @ ''e'' @ (if e < 0 then ''-'' else ''+'')
            @ (if length es < 2 then CHR ''0'' # es else es))
      else if decpt \<le> 0 then ''0.'' @ replicate (nat (- decpt)) CHR ''0'' @ ds
      else if decpt < n then take (nat decpt) ds @ ''.'' @ drop (nat decpt) ds
      else ds @ replicate (nat (decpt - n)) CHR ''0'' @ ''.0'')"

definition repr_pos :: "rat \<Rightarrow> string" where
  "repr_pos a =
     (let (m, ex) = find_shortest a (dec_exp a) 16 1;
          ms = digits10 m
      in repr_layout (strip_zeros ms) (int (length ms) + ex))"

definition py_str :: "double \<Rightarrow> string" where
  "py_str x = (case x of
      Fin q \<Rightarrow> (if q = 0 then ''0.0'' else (if q < 0 then ''-'' else []) @ repr_pos \<bar>q\<bar>)
    | NegZero \<Rightarrow> ''-0.0'' | PInf \<Rightarrow> ''inf'' | NInf \<Rightarrow> ''-inf'' | NaN \<Rightarrow> ''nan'')"

subsection \<open>\<open>float(s)\<close>: reading a float\<close>

definition is_digit :: "char \<Rightarrow> bool" where
  "is_digit c = (c \<in> set ''0123456789'')"

text \<open>
  A character of a string is a code point below 256.  \<open>float\<close> drops from both ends of
  its argument the blanks among them: the space, the controls U+0009 to U+000D, the next
  line control U+0085 and the no-break space U+00A0.  The controls U+001C to U+001F are
  not dropped, and a text that holds one is rejected.
\<close>

definition is_space :: "char \<Rightarrow> bool" where
  "is_space c = (c \<in> set [CHR '' '', CHR 0x09, CHR 0x0A, CHR 0x0B, CHR 0x0C, CHR 0x0D,
                           CHR 0x85, CHR 0xA0])"

definition strip :: "string \<Rightarrow> string" where
  "strip s = rev (dropWhile is_space (rev (dropWhile is_space s)))"

definition to_lower :: "char \<Rightarrow> char" where
  "to_lower c =
     (case map_of (zip ''ABCDEFGHIJKLMNOPQRSTUVWXYZ'' ''abcdefghijklmnopqrstuvwxyz'') c of
        Some l \<Rightarrow> l | None \<Rightarrow> c)"

definition digit_val :: "char \<Rightarrow> int" where
  "digit_val c = int (length (takeWhile (\<lambda>d. d \<noteq> c) ''0123456789''))"

definition int_of_digits :: "string \<Rightarrow> int" where
  "int_of_digits ds = foldl (\<lambda>a c. 10 * a + digit_val c) 0 ds"

text \<open>
  A digit part is a run of digits in which single underscores may stand between two
  digits.  \<open>digit_run s\<close> splits off the longest run of digits and underscores;
  \<open>run_ok\<close> says that a nonempty run is a digit part.
\<close>

definition digit_run :: "string \<Rightarrow> string \<times> string" where
  "digit_run s = (takeWhile (\<lambda>c. is_digit c \<or> c = CHR ''_'') s,
                  dropWhile (\<lambda>c. is_digit c \<or> c = CHR ''_'') s)"

fun no_double_underscore :: "string \<Rightarrow> bool" where
  "no_double_underscore (a # b # cs) =
     (\<not> (a = CHR ''_'' \<and> b = CHR ''_'') \<and> no_double_underscore (b # cs))"
| "no_double_underscore _ = True"

definition run_ok :: "string \<Rightarrow> bool" where
  "run_ok r = (r = [] \<or> (is_digit (hd r) \<and> is_digit (last r) \<and> no_double_underscore r))"

definition run_digits :: "string \<Rightarrow> string" where
  "run_digits r = filter is_digit r"

text \<open>The exponent part: nothing, or \<open>e\<close>, an optional sign and a digit part, up to the end.\<close>

definition parse_exponent :: "string \<Rightarrow> int option" where
  "parse_exponent s =
     (case s of
        [] \<Rightarrow> Some 0
      | c # cs \<Rightarrow>
          (if c = CHR ''e'' \<or> c = CHR ''E'' then
             (let (neg, ds) = (case cs of
                                 d # r \<Rightarrow> (if d = CHR ''-'' then (True, r)
                                            else if d = CHR ''+'' then (False, r)
                                            else (False, cs))
                               | [] \<Rightarrow> (False, cs));
                  (r, rest) = digit_run ds
              in if r \<noteq> [] \<and> run_ok r \<and> rest = [] then
                   Some (if neg then - int_of_digits (run_digits r) else int_of_digits (run_digits r))
                 else None)
           else None))"

text \<open>The unsigned decimal: integer part, optional point and fraction, optional exponent.\<close>

definition parse_decimal :: "string \<Rightarrow> rat option" where
  "parse_decimal s =
     (let (ip, rest) = digit_run s;
          (fp, rest') = (case rest of
                           c # cs \<Rightarrow> (if c = CHR ''.'' then digit_run cs else ([], rest))
                         | [] \<Rightarrow> ([], rest))
      in if run_ok ip \<and> run_ok fp \<and> \<not> (ip = [] \<and> fp = []) then
           (case parse_exponent rest' of
              None \<Rightarrow> None
            | Some ex \<Rightarrow>
                Some (of_int (int_of_digits (run_digits ip @ run_digits fp))
                      * 10 powi (ex - int (length (run_digits fp)))))
         else None)"

definition py_float :: "string \<Rightarrow> double option" where
  "py_float s =
     (let t = strip s;
          (neg, body) = (case t of
                           c # cs \<Rightarrow> (if c = CHR ''-'' then (True, cs)
                                      else if c = CHR ''+'' then (False, cs)
                                      else (False, t))
                         | [] \<Rightarrow> (False, t));
          low = map to_lower body
      in if low = ''inf'' \<or> low = ''infinity'' then Some (signed_inf neg)
         else if low = ''nan'' then Some NaN
         else (case parse_decimal body of
                 None \<Rightarrow> None
               | Some q \<Rightarrow>
                   Some (if q = 0 then signed_zero neg
                         else round64 (if neg then - q else q))))"

subsection \<open>The pattern \<open>\d+(?:\.\d+)?\<close>\<close>

lemma dropWhile_Cons_shorter:
  assumes "dropWhile P cs = d # r"
  shows "length r < length cs" and "length (dropWhile Q r) < Suc (length cs)"
proof -
  have "length (dropWhile P cs) \<le> length cs"
    by (rule length_dropWhile_le)
  with assms show "length r < length cs"
    by simp
  moreover have "length (dropWhile Q r) \<le> length r"
    by (rule length_dropWhile_le)
  ultimately show "length (dropWhile Q r) < Suc (length cs)"
    by simp
qed

text \<open>
  \<open>findall s\<close> is \<open>re.findall\<close> for the pattern the program compiles: scanning from the
  left, a match is a longest run of digits, together with a following point and run of
  digits when there is one; the scan goes on behind the match.
\<close>

function findall :: "string \<Rightarrow> string list" where
  "findall [] = []"
| "findall (c # cs) =
     (if is_digit c then
        (let ds = c # takeWhile is_digit cs;
             rest = dropWhile is_digit cs
         in case rest of
              d # r \<Rightarrow>
                (if d = CHR ''.'' \<and> r \<noteq> [] \<and> is_digit (hd r) then
                   (ds @ ''.'' @ takeWhile is_digit r) # findall (dropWhile is_digit r)
                 else ds # findall rest)
            | [] \<Rightarrow> [ds])
      else findall cs)"
  by pat_completeness auto
termination
proof (relation "measure length")
  show "wf (measure length)" by simp
next
  fix c cs ds rest d r
  assume "rest = dropWhile is_digit cs" "rest = d # r"
  then have "dropWhile is_digit cs = d # r" by simp
  then have "length (dropWhile is_digit r) < Suc (length cs)"
    by (rule dropWhile_Cons_shorter)
  then show "(dropWhile is_digit r, c # cs) \<in> measure length" by simp
next
  fix c cs ds rest d r
  assume "rest = dropWhile is_digit cs"
  moreover have "length (dropWhile is_digit cs) \<le> length cs"
    by (rule length_dropWhile_le)
  ultimately show "(rest, c # cs) \<in> measure length" by simp
next
  fix c :: char and cs :: string
  show "(cs, c # cs) \<in> measure length" by simp
qed

declare findall.simps [simp del]

section \<open>The window's state\<close>

text \<open>
  The fields of \<open>UiMainWindow\<close> that the methods read and write, the texts of the
  widgets they touch, and the clipboard.  \<open>_translate\<close> returns its text unchanged (the
  program installs no translator), so a label's text is the string handed to \<open>setText\<close>.

  \<open>calculate_strategy\<close> appends the list object \<open>self.target_value\<close> itself to
  \<open>self.info_table\<close>, and the program only ever clears and extends that one object.  A
  row of the table is therefore either a list of its own (\<open>Lit\<close>) or that shared
  object (\<open>TargetRef\<close>), whose cells are whatever \<open>target_value\<close> holds when it is read.
\<close>

datatype row = Lit "string list" | TargetRef

record ui =
  info_table :: "row list"
  current_balances :: "double list"
  target_value :: "string list"
  filename :: string
  entry_lineEdit :: string
  error_label :: string
  info_label :: string
  bonds_button :: string
  international_button :: string
  national_button :: string
  clipboard :: string

definition cells :: "ui \<Rightarrow> row \<Rightarrow> string list" where
  "cells st r = (case r of Lit xs \<Rightarrow> xs | TargetRef \<Rightarrow> target_value st)"

text \<open>Indexing with a non-negative index raises \<open>IndexError\<close> past the end.\<close>

definition nth_py :: "'a list \<Rightarrow> nat \<Rightarrow> py_error + 'a" where
  "nth_py xs i = (if i < length xs then Inr (xs ! i) else Inl IndexError)"

text \<open>\<open>table_cell st j i\<close> is \<open>self.info_table[j][i]\<close>.\<close>

definition table_cell :: "ui \<Rightarrow> nat \<Rightarrow> nat \<Rightarrow> py_error + string" where
  "table_cell st j i =
     (case nth_py (info_table st) j of
        Inl e \<Rightarrow> Inl e
      | Inr r \<Rightarrow> nth_py (cells st r) i)"

text \<open>The state \<open>__init__\<close> and \<open>reanimate_ui\<close> leave behind.\<close>

definition init_ui :: ui where
  "init_ui = \<lparr> info_table = [], current_balances = [Fin (- 1)], target_value = [],
               filename = [], entry_lineEdit = [], error_label = [], info_label = [],
               bonds_button = [], international_button = [], national_button = [],
               clipboard = [] \<rparr>"

section \<open>\<open>buy_or_sell\<close>\<close>

text \<open>
  The test of line 37, \<open>.95 < ratio < 1.05 and int(money_to_invest) == 0\<close>: the
  conversion is only reached inside the band, and it raises on an infinity or a
  not-a-number.
\<close>

definition hold_test :: "double \<Rightarrow> double \<Rightarrow> py_error + bool" where
  "hold_test actual_vs_target_ratio money_to_invest =
     (if flt (round64 (95 / 100)) actual_vs_target_ratio
         \<and> flt actual_vs_target_ratio (round64 (105 / 100)) then
        (case py_int money_to_invest of
           Inl e \<Rightarrow> Inl e
         | Inr k \<Rightarrow> Inr (k = 0))
      else Inr False)"

text \<open>
  The method returns the button text and appends the rounded target to
  \<open>self.target_value\<close>; the pair is its result (or the exception it raises) and the state
  it leaves.  The division raises before anything is written; the lookup of the fund's
  name raises after the target has been appended.
\<close>

definition buy_or_sell ::
  "ui \<Rightarrow> double \<Rightarrow> double \<Rightarrow> double \<Rightarrow> double \<Rightarrow> nat \<Rightarrow> (py_error + string) \<times> ui" where
  "buy_or_sell st percentage total' current money_to_invest key =
     (let target = fmul total' percentage in
      case fdiv target current of
        Inl e \<Rightarrow> (Inl e, st)
      | Inr actual_vs_target_ratio \<Rightarrow>
          (case hold_test actual_vs_target_ratio money_to_invest of
             Inl e \<Rightarrow> (Inl e, st)
           | Inr hold \<Rightarrow>
               (let s = (if hold then ''Looks good for ''
                         else (let amount_to_trade = py_str (py_round2 (fabs (fsub current target)))
                               in (if flt (Fin 1) actual_vs_target_ratio then ''Buy '' else ''Sell '')
                                  @ ''$'' @ amount_to_trade @ '' ''));
                    st' = st\<lparr>target_value := target_value st @ [py_str (py_round2 target)]\<rparr>
                in case table_cell st' 1 key of
                     Inl e \<Rightarrow> (Inl e, st')
                   | Inr name \<Rightarrow> (Inr (s @ name), st'))))"

section \<open>\<open>scrape_values_from_csv\<close>\<close>

text \<open>
  The file system is a parameter: \<open>fs name\<close> is the list of rows \<open>csv.reader\<close> yields
  for the file, or \<open>None\<close> when opening or reading it raises.  Only that part stands
  inside the \<open>try\<close>; the rows are taken apart in its \<open>else\<close> branch, where nothing is
  caught.
\<close>

definition header :: "string list" where
  "header = [''Symbol'', ''Current Value'', ''Current Allocation'', ''Target value'',
             ''Target Allocation'']"

definition remove_dollar :: "string \<Rightarrow> string" where
  "remove_dollar s = filter (\<lambda>c. c \<noteq> CHR ''$'') s"

definition csv_cell :: "string list list \<Rightarrow> nat \<Rightarrow> nat \<Rightarrow> py_error + string" where
  "csv_cell csv_list i j =
     (case nth_py csv_list i of
        Inl e \<Rightarrow> Inl e
      | Inr r \<Rightarrow> nth_py r j)"

text \<open>The loop \<open>for i in range(2, 5)\<close>, with the two local lists it fills.\<close>

fun scrape_loop ::
  "string list list \<Rightarrow> nat list \<Rightarrow> string list \<Rightarrow> string list \<Rightarrow> ui
     \<Rightarrow> (py_error + string list \<times> string list) \<times> ui" where
  "scrape_loop csv_list [] temp_names temp_balances st = (Inr (temp_names, temp_balances), st)"
| "scrape_loop csv_list (i # is) temp_names temp_balances st =
     (case csv_cell csv_list i 6 of
        Inl e \<Rightarrow> (Inl e, st)
      | Inr b \<Rightarrow>
          (case py_float (remove_dollar b) of
             None \<Rightarrow> (Inl ValueError, st)
           | Some x \<Rightarrow>
               (let st' = st\<lparr>current_balances := current_balances st @ [x]\<rparr>
                in case csv_cell csv_list i 1 of
                     Inl e \<Rightarrow> (Inl e, st')
                   | Inr name \<Rightarrow>
                       scrape_loop csv_list is (temp_names @ [name]) (temp_balances @ [b]) st')))"

definition scrape_values_from_csv ::
  "(string \<Rightarrow> string list list option) \<Rightarrow> ui \<Rightarrow> py_error option \<times> ui" where
  "scrape_values_from_csv fs st =
     (let st1 = st\<lparr>current_balances := []\<rparr> in
      case fs (filename st1) of
        None \<Rightarrow> (None, st1\<lparr>current_balances := [Fin (- 1)]\<rparr>)
      | Some csv_list \<Rightarrow>
          (case scrape_loop csv_list [2, 3, 4] [] [] (st1\<lparr>info_table := [Lit header]\<rparr>) of
             (Inl e, st2) \<Rightarrow> (Some e, st2)
           | (Inr (temp_names, temp_balances), st2) \<Rightarrow>
               (None, st2\<lparr>info_table := info_table st2 @ [Lit temp_names, Lit temp_balances]\<rparr>)))"

section \<open>\<open>calculate_strategy\<close>\<close>

text \<open>\<open>contains tok s\<close> is Python's \<open>tok in s\<close> on strings.\<close>

fun contains :: "string \<Rightarrow> string \<Rightarrow> bool" where
  "contains tok [] = (tok = [])"
| "contains tok (c # cs) = (take (length tok) (c # cs) = tok \<or> contains tok cs)"

text \<open>The chain of lines 79 to 114: bond, international and national percentages.\<close>

definition glide_path :: "string \<Rightarrow> double \<times> double \<times> double" where
  "glide_path name =
     (if contains ''2020'' name then (round64 (2 / 10), round64 (3 / 10), round64 (5 / 10))
      else if contains ''2030'' name then (round64 (3 / 10), round64 (27 / 100), round64 (43 / 100))
      else if contains ''2040'' name then (round64 (4 / 10), round64 (23 / 100), round64 (37 / 100))
      else if contains ''2050'' name then (round64 (5 / 10), round64 (19 / 100), round64 (31 / 100))
      else if contains ''2060'' name then (round64 (6 / 10), round64 (15 / 100), round64 (25 / 100))
      else if contains ''2070'' name then (round64 (7 / 10), round64 (11 / 100), round64 (19 / 100))
      else if contains ''2080'' name then (round64 (8 / 10), round64 (8 / 100), round64 (12 / 100))
      else if contains ''2090'' name then (round64 (9 / 10), round64 (4 / 100), round64 (6 / 100))
      else (Fin 1, Fin 0, Fin 0))"

text \<open>One button: \<open>self.buy_or_sell(pct, total_amount, self.current_balances[key], money, key)\<close>.\<close>

definition advise ::
  "ui \<Rightarrow> double \<Rightarrow> double \<Rightarrow> double \<Rightarrow> nat \<Rightarrow> (py_error + string) \<times> ui" where
  "advise st percentage total_amount money_to_invest key =
     (case nth_py (current_balances st) key of
        Inl e \<Rightarrow> (Inl e, st)
      | Inr current \<Rightarrow> buy_or_sell st percentage total_amount current money_to_invest key)"

text \<open>One cell of the current-allocation row (lines 128 to 130).\<close>

definition current_allocation :: "ui \<Rightarrow> double \<Rightarrow> double \<Rightarrow> nat \<Rightarrow> py_error + string" where
  "current_allocation st total_amount money_to_invest key =
     (case nth_py (current_balances st) key of
        Inl e \<Rightarrow> Inl e
      | Inr current \<Rightarrow>
          (case fdiv (fmul (Fin 100) current) (fsub total_amount money_to_invest) of
             Inl e \<Rightarrow> Inl e
           | Inr a \<Rightarrow> Inr (py_str (py_round2 a) @ ''%'')))"

definition target_allocation :: "double \<Rightarrow> string" where
  "target_allocation percentage = py_str (fmul (Fin 100) percentage) @ ''%''"

definition calculate_strategy :: "ui \<Rightarrow> double \<Rightarrow> py_error option \<times> ui" where
  "calculate_strategy st money_to_invest =
     (let (bond_percentage, international_index_percentage, national_index_percentage) =
            glide_path (filename st);
          total_amount = fadd money_to_invest (py_sum (current_balances st));
          st0 = st\<lparr>target_value := []\<rparr>
      in case advise st0 bond_percentage total_amount money_to_invest 0 of
           (Inl e, st1) \<Rightarrow> (Some e, st1)
         | (Inr s0, st1) \<Rightarrow>
      (case advise (st1\<lparr>bonds_button := s0\<rparr>) international_index_percentage total_amount
              money_to_invest 1 of
           (Inl e, st2) \<Rightarrow> (Some e, st2)
         | (Inr s1, st2) \<Rightarrow>
      (case advise (st2\<lparr>international_button := s1\<rparr>) national_index_percentage total_amount
              money_to_invest 2 of
           (Inl e, st3) \<Rightarrow> (Some e, st3)
         | (Inr s2, st3) \<Rightarrow>
      (let st4 = st3\<lparr>national_button := s2\<rparr> in
       case current_allocation st4 total_amount money_to_invest 0 of
           Inl e \<Rightarrow> (Some e, st4)
         | Inr a0 \<Rightarrow>
      (case current_allocation st4 total_amount money_to_invest 1 of
           Inl e \<Rightarrow> (Some e, st4)
         | Inr a1 \<Rightarrow>
      (case current_allocation st4 total_amount money_to_invest 2 of
           Inl e \<Rightarrow> (Some e, st4)
         | Inr a2 \<Rightarrow>
           (None, st4\<lparr>info_table := info_table st4 @
                    [Lit [a0, a1, a2], TargetRef,
                     Lit [target_allocation bond_percentage,
                          target_allocation international_index_percentage,
                          target_allocation national_index_percentage]]\<rparr>)))))))"

section \<open>\<open>open_csv\<close>, \<open>calculate\<close> and the copy buttons\<close>

definition csv_file_error :: "ui \<Rightarrow> ui" where
  "csv_file_error st = st\<lparr>error_label := ''you did not enter a csv file''\<rparr>"

text \<open>\<open>chosen\<close> is the file name the dialog returns (empty when it is cancelled).\<close>

definition open_csv ::
  "(string \<Rightarrow> string list list option) \<Rightarrow> string \<Rightarrow> ui \<Rightarrow> py_error option \<times> ui" where
  "open_csv fs chosen st =
     (case scrape_values_from_csv fs (st\<lparr>filename := chosen\<rparr>) of
        (Some e, st1) \<Rightarrow> (Some e, st1)
      | (None, st1) \<Rightarrow>
          (if current_balances st1 = [Fin (- 1)] then (None, csv_file_error st1)
           else (None, st1\<lparr>error_label := filename st1\<rparr>)))"

text \<open>\<open>"{:20}|".format(str(x).ljust(15))\<close>: padded on the right to 15, then to 20 columns.\<close>

definition ljust :: "nat \<Rightarrow> string \<Rightarrow> string" where
  "ljust n s = s @ replicate (n - length s) CHR '' ''"

definition table_field :: "string \<Rightarrow> string" where
  "table_field x = ljust 20 (ljust 15 x) @ ''|''"

text \<open>The inner loop of line 282, \<open>for j in range(1, len(self.info_table))\<close>, at column \<open>i\<close>.\<close>

fun table_line :: "ui \<Rightarrow> nat \<Rightarrow> nat list \<Rightarrow> py_error + string" where
  "table_line st i [] = Inr []"
| "table_line st i (j # js) =
     (case table_cell st j i of
        Inl e \<Rightarrow> Inl e
      | Inr x \<Rightarrow>
          (case table_line st i js of
             Inl e \<Rightarrow> Inl e
           | Inr rest \<Rightarrow> Inr (table_field x @ rest)))"

text \<open>The outer loop of line 280, \<open>for i in range(len(self.info_table[1]))\<close>.\<close>

fun table_lines :: "ui \<Rightarrow> nat list \<Rightarrow> py_error + string" where
  "table_lines st [] = Inr []"
| "table_lines st (i # is) =
     (case table_line st i [1 ..< length (info_table st)] of
        Inl e \<Rightarrow> Inl e
      | Inr l \<Rightarrow>
          (case table_lines st is of
             Inl e \<Rightarrow> Inl e
           | Inr rest \<Rightarrow> Inr ([CHR 0x0A] @ ''|'' @ l @ rest)))"

text \<open>
  Lines 276 to 284: the heading, a rule of \<open>int(len(s) * .85)\<close> dashes, one line per fund
  and a final newline.
\<close>

definition format_table :: "ui \<Rightarrow> py_error + string" where
  "format_table st =
     (case nth_py (info_table st) 0 of
        Inl e \<Rightarrow> Inl e
      | Inr r0 \<Rightarrow>
          (let s = ''Values From CSV: '' @ [CHR 0x0A, CHR 0x0A] @ ''|''
                   @ concat (map table_field (cells st r0))
           in case py_int (fmul (round64 (of_int (int (length s)))) (round64 (85 / 100))) of
                Inl e \<Rightarrow> Inl e
              | Inr k \<Rightarrow>
                  (case nth_py (info_table st) 1 of
                     Inl e \<Rightarrow> Inl e
                   | Inr r1 \<Rightarrow>
                       (case table_lines st [0 ..< length (cells st r1)] of
                          Inl e \<Rightarrow> Inl e
                        | Inr body \<Rightarrow>
                            Inr (s @ [CHR 0x0A] @ replicate (nat k) CHR ''-'' @ body
                                 @ [CHR 0x0A])))))"

text \<open>
  \<open>list.remove(x)\<close> deletes the first row equal to \<open>x\<close>; rows are compared by their
  cells.
\<close>

fun remove_row :: "ui \<Rightarrow> string list \<Rightarrow> row list \<Rightarrow> row list" where
  "remove_row st x [] = []"
| "remove_row st x (r # rs) = (if cells st r = x then rs else r # remove_row st x rs)"

text \<open>One round of line 287: \<open>self.info_table.remove(self.info_table[len(self.info_table) - 1])\<close>.\<close>

definition remove_last_row :: "ui \<Rightarrow> py_error option \<times> ui" where
  "remove_last_row st =
     (if info_table st = [] then (Some IndexError, st)
      else (None, st\<lparr>info_table := remove_row st (cells st (last (info_table st))) (info_table st)\<rparr>))"

fun remove_rows :: "nat \<Rightarrow> ui \<Rightarrow> py_error option \<times> ui" where
  "remove_rows 0 st = (None, st)"
| "remove_rows (Suc n) st =
     (case remove_last_row st of
        (Some e, st') \<Rightarrow> (Some e, st')
      | (None, st') \<Rightarrow> remove_rows n st')"

text \<open>Lines 272 to 289, once the amount is known.\<close>

definition calculate_with :: "ui \<Rightarrow> double \<Rightarrow> py_error option \<times> ui" where
  "calculate_with st amount_to_invest =
     (if current_balances st \<noteq> [Fin (- 1)] then
        (case calculate_strategy st amount_to_invest of
           (Some e, st1) \<Rightarrow> (Some e, st1)
         | (None, st1) \<Rightarrow>
             (let st2 = st1\<lparr>error_label := ''Strategy Calculated''\<rparr> in
              case format_table st2 of
                Inl e \<Rightarrow> (Some e, st2)
              | Inr s \<Rightarrow> remove_rows 3 (st2\<lparr>info_label := s\<rparr>)))
      else (None, csv_file_error st))"

text \<open>
  Lines 264 to 271: \<open>float\<close> of the entry's text; when it raises, an empty text stands
  for 0.00 and any other text ends the method with a message.
\<close>

definition calculate :: "ui \<Rightarrow> py_error option \<times> ui" where
  "calculate st =
     (case py_float (entry_lineEdit st) of
        Some amount_to_invest \<Rightarrow> calculate_with st amount_to_invest
      | None \<Rightarrow>
          (if entry_lineEdit st = [] then calculate_with st (Fin 0)
           else (None, st\<lparr>error_label := ''You did not enter a valid amount''\<rparr>)))"

text \<open>\<open>''.join(self.numbers.findall(text))\<close>.\<close>

definition numbers_of :: "string \<Rightarrow> string" where
  "numbers_of text = concat (findall text)"

definition copy_bond_number :: "ui \<Rightarrow> ui" where
  "copy_bond_number st = st\<lparr>clipboard := numbers_of (bonds_button st)\<rparr>"

definition copy_national_number :: "ui \<Rightarrow> ui" where
  "copy_national_number st = st\<lparr>clipboard := numbers_of (national_button st)\<rparr>"

definition copy_international_number :: "ui \<Rightarrow> ui" where
  "copy_international_number st = st\<lparr>clipboard := numbers_of (international_button st)\<rparr>"

section \<open>A sample portfolio\<close>

text \<open>
  A positions file as the program reads it: a heading, the money-market row, and the three
  funds in rows 2 to 4, with the symbol in column 1 and the current value in column 6.
\<close>

definition positions :: "string \<Rightarrow> string \<Rightarrow> string \<Rightarrow> string list list" where
  "positions b0 b1 b2 =
     [[''Account'', ''Symbol'', ''Description'', ''Quantity'', ''Last Price'', ''Change'',
       ''Current Value''],
      [''X66'', ''SPAXX'', ''MONEY MARKET'', ''5.00'', ''$1.00'', ''$0.00'', ''$5.00''],
      [''X66'', ''FXNAX'', ''US BOND INDEX'', ''8.1'', ''$12.34'', ''$0.01'', b0],
      [''X66'', ''FZILX'', ''ZERO INTL INDEX'', ''9.2'', ''$10.87'', ''$0.02'', b1],
      [''X66'', ''FZROX'', ''ZERO TOTAL MARKET'', ''7.3'', ''$13.70'', ''$0.03'', b2]]"

definition one_file :: "string \<Rightarrow> string list list \<Rightarrow> string \<Rightarrow> string list list option" where
  "one_file path rows name = (if name = path then Some rows else None)"

text \<open>The state after loading \<open>positions b0 b1 b2\<close> from \<open>path\<close>, the balances read as \<open>xs\<close>.\<close>

definition loaded :: "string \<Rightarrow> string list \<Rightarrow> double list \<Rightarrow> ui" where
  "loaded path bs xs =
     init_ui\<lparr>info_table := [Lit header, Lit [''FXNAX'', ''FZILX'', ''FZROX''], Lit bs],
             current_balances := xs, filename := path, error_label := path\<rparr>"

definition sample_ui :: ui where
  "sample_ui = loaded ''/home/u/Portfolio_2020.csv'' [''$100.00'', ''$100.00'', ''$100.00'']
                 [Fin 100, Fin 100, Fin 100]"

text \<open>The same file with the three balances written \<open>0.01\<close>, without a dollar sign.\<close>

definition penny_ui :: ui where
  "penny_ui = loaded ''/home/u/Portfolio_2020.csv'' [''0.01'', ''0.01'', ''0.01'']
                [round64 (1 / 100), round64 (1 / 100), round64 (1 / 100)]"

section \<open>The specification's reading of the selector and of the copy pattern\<close>

text \<open>
  The glide-path selector as the specification words it: a fixed table of year tokens,
  searched in order for the first token the name contains, with the all-bonds triple when
  none matches.
\<close>

definition year_tokens :: "string list" where
  "year_tokens = [''2020'', ''2030'', ''2040'', ''2050'', ''2060'', ''2070'', ''2080'', ''2090'']"

definition glide_table :: "(string \<times> double \<times> double \<times> double) list" where
  "glide_table =
     [(''2020'', round64 (2 / 10), round64 (3 / 10), round64 (5 / 10)),
      (''2030'', round64 (3 / 10), round64 (27 / 100), round64 (43 / 100)),
      (''2040'', round64 (4 / 10), round64 (23 / 100), round64 (37 / 100)),
      (''2050'', round64 (5 / 10), round64 (19 / 100), round64 (31 / 100)),
      (''2060'', round64 (6 / 10), round64 (15 / 100), round64 (25 / 100)),
      (''2070'', round64 (7 / 10), round64 (11 / 100), round64 (19 / 100)),
      (''2080'', round64 (8 / 10), round64 (8 / 100), round64 (12 / 100)),
      (''2090'', round64 (9 / 10), round64 (4 / 100), round64 (6 / 100))]"

definition first_match :: "string \<Rightarrow> double \<times> double \<times> double" where
  "first_match name =
     (case find (\<lambda>(tok, _). contains tok name) glide_table of
        Some (_, triple) \<Rightarrow> triple
      | None \<Rightarrow> (Fin 1, Fin 0, Fin 0))"

text \<open>The Python expression \<open>bond + international + national\<close> on a triple.\<close>

definition sum3 :: "double \<times> double \<times> double \<Rightarrow> double" where
  "sum3 t = (case t of (b, i, n) \<Rightarrow> fadd (fadd b i) n)"

text \<open>
  A decimal number as the pattern describes it: digits, optionally followed by a point
  and more digits.
\<close>

definition decimal_number :: "string \<Rightarrow> bool" where
  "decimal_number m =
     (let ds = takeWhile is_digit m; rest = dropWhile is_digit m
      in ds \<noteq> [] \<and>
         (rest = [] \<or> (hd rest = CHR ''.'' \<and> tl rest \<noteq> [] \<and> list_all is_digit (tl rest))))"

section \<open>Properties of the float operations\<close>

lemma round64_minus: "q \<noteq> 0 \<Longrightarrow> round64 (- q) = fneg (round64 q)"
  by (auto simp: round64_def Let_def fneg_def signed_inf_def signed_zero_def)

lemma fabs_fneg: "fabs (fneg x) = fabs x"
  by (cases x) (auto simp: fabs_def fneg_def)

lemma fabs_round64_swap: "fabs (round64 (a - b)) = fabs (round64 (b - a))"
proof (cases "a = b")
  case True
  then show ?thesis by simp
next
  case False
  then have "round64 (b - a) = fneg (round64 (a - b))"
    using round64_minus [of "a - b"] by simp
  then show ?thesis by (simp add: fabs_fneg)
qed

lemma fabs_round64_minus: "fabs (round64 (- q)) = fabs (round64 q)"
  using fabs_round64_swap [of 0 q] by simp

lemma fabs_simps:
  "fabs (Fin q) = Fin \<bar>q\<bar>" "fabs NegZero = Fin 0" "fabs PInf = PInf" "fabs NInf = PInf"
  "fabs NaN = NaN"
  by (simp_all add: fabs_def)

text \<open>\<open>abs(current - target)\<close> and \<open>abs(target - current)\<close> are the same float.\<close>

lemma fsub_swap: "fabs (fsub x y) = fabs (fsub y x)"
  by (cases x; cases y)
     (simp_all add: fsub_def fadd_def fneg_def is_zero_def is_inf_def fabs_simps
        fabs_round64_swap fabs_round64_minus)

lemma fdiv_nonzero: "\<not> is_zero c \<Longrightarrow> \<exists>r. fdiv x c = Inr r"
  by (simp add: fdiv_def)

text \<open>\<open>int(x) == 0\<close> holds for the floats strictly between \<open>-1\<close> and \<open>1\<close>.\<close>

lemma py_int_zero_iff:
  "py_int m = Inr 0 \<longleftrightarrow> m = NegZero \<or> (\<exists>q. m = Fin q \<and> - 1 < q \<and> q < 1)"
  by (cases m) (auto simp: py_int_def floor_eq_iff split: if_splits)

text \<open>The sample state is what \<open>open_csv\<close> produces from a file of three funds at $100.\<close>

lemma open_csv_sample:
  "open_csv (one_file ''/home/u/Portfolio_2020.csv'' (positions ''$100.00'' ''$100.00'' ''$100.00''))
     ''/home/u/Portfolio_2020.csv'' init_ui = (None, sample_ui)"
  by code_simp

section \<open>The rebalance calculator\<close>

text \<open>
  C6. Whenever the current balance of the fund is a zero (\<open>0.0\<close> or \<open>-0.0\<close>),
  \<open>buy_or_sell\<close> raises \<open>ZeroDivisionError\<close> at the division \<open>target / current\<close>, whatever
  the percentage, the total and the new money are, and leaves the state as it was.
\<close>

theorem buy_or_sell_zero_balance:
  "is_zero current \<Longrightarrow>
   buy_or_sell st percentage total' current money_to_invest key = (Inl ZeroDivisionError, st)"
  by (simp add: buy_or_sell_def fdiv_def)

theorem buy_or_sell_zero_balance_witness:
  "is_zero (Fin 0) \<and> is_zero NegZero
   \<and> buy_or_sell sample_ui (round64 (2 / 10)) (Fin 200) (Fin 0) (Fin 0) 0
       = (Inl ZeroDivisionError, sample_ui)
   \<and> buy_or_sell sample_ui (round64 (2 / 10)) (Fin 200) NegZero (Fin 0) 0
       = (Inl ZeroDivisionError, sample_ui)"
proof -
  have z: "is_zero (Fin 0)" "is_zero NegZero"
    by (simp_all add: is_zero_def)
  show ?thesis
    using z buy_or_sell_zero_balance [OF z(1), of sample_ui "round64 (2 / 10)" "Fin 200" "Fin 0" 0]
      buy_or_sell_zero_balance [OF z(2), of sample_ui "round64 (2 / 10)" "Fin 200" "Fin 0" 0]
    by simp
qed

text \<open>
  C1. For a fund whose current balance is not a zero, the ratio \<open>target / current\<close> of
  \<open>target = total * percentage\<close> exists, and whenever the test of the Hold branch comes out
  false, \<open>buy_or_sell\<close> returns \<open>Buy\<close> if \<open>1.0 < ratio\<close> and \<open>Sell\<close> otherwise, followed by
  the dollar sign, \<open>|target - current|\<close> rounded to two decimals, and the fund's name; the
  rounded target is appended to \<open>target_value\<close>.
\<close>

theorem buy_or_sell_trade:
  assumes "\<not> is_zero current"
    and "table_cell (st\<lparr>target_value :=
           target_value st @ [py_str (py_round2 (fmul total' percentage))]\<rparr>) 1 key = Inr name"
  shows "\<exists>ratio. fdiv (fmul total' percentage) current = Inr ratio \<and>
           (hold_test ratio money_to_invest = Inr False \<longrightarrow>
            buy_or_sell st percentage total' current money_to_invest key =
              (Inr ((if flt (Fin 1) ratio then ''Buy '' else ''Sell '') @ ''$''
                    @ py_str (py_round2 (fabs (fsub (fmul total' percentage) current)))
                    @ '' '' @ name),
               st\<lparr>target_value :=
                   target_value st @ [py_str (py_round2 (fmul total' percentage))]\<rparr>))"
proof -
  from assms(1) obtain ratio where r: "fdiv (fmul total' percentage) current = Inr ratio"
    using fdiv_nonzero by blast
  have swap: "fabs (fsub current (fmul total' percentage))
                = fabs (fsub (fmul total' percentage) current)"
    by (rule fsub_swap)
  show ?thesis
    using r assms(2) by (auto simp: buy_or_sell_def Let_def swap)
qed

theorem buy_or_sell_trade_witness:
  "\<not> is_zero (Fin 100)
   \<and> fdiv (fmul (Fin 300) (round64 (2 / 10))) (Fin 100) = Inr (round64 (6 / 10))
   \<and> hold_test (round64 (6 / 10)) (Fin 0) = Inr False
   \<and> buy_or_sell sample_ui (round64 (2 / 10)) (Fin 300) (Fin 100) (Fin 0) 0
       = (Inr ''Sell $40.0 FXNAX'', sample_ui\<lparr>target_value := [''60.0'']\<rparr>)"
proof -
  have nz: "\<not> is_zero (Fin 100)"
    by (simp add: is_zero_def)
  have cell: "table_cell (sample_ui\<lparr>target_value := target_value sample_ui
                 @ [py_str (py_round2 (fmul (Fin 300) (round64 (2 / 10))))]\<rparr>) 1 0 = Inr ''FXNAX''"
    by code_simp
  have ratio: "fdiv (fmul (Fin 300) (round64 (2 / 10))) (Fin 100) = Inr (round64 (6 / 10))"
    by code_simp
  have test: "hold_test (round64 (6 / 10)) (Fin 0) = Inr False"
    by code_simp
  have res: "(Inr ((if flt (Fin 1) (round64 (6 / 10)) then ''Buy '' else ''Sell '') @ ''$''
                 @ py_str (py_round2 (fabs (fsub (fmul (Fin 300) (round64 (2 / 10))) (Fin 100))))
                 @ '' '' @ ''FXNAX''),
               sample_ui\<lparr>target_value := target_value sample_ui
                 @ [py_str (py_round2 (fmul (Fin 300) (round64 (2 / 10))))]\<rparr>)
              = (Inr ''Sell $40.0 FXNAX'' :: py_error + string, sample_ui\<lparr>target_value := [''60.0'']\<rparr>)"
    by code_simp
  from buy_or_sell_trade [OF nz cell, of "Fin 0"] ratio test
  have "buy_or_sell sample_ui (round64 (2 / 10)) (Fin 300) (Fin 100) (Fin 0) 0
          = (Inr ((if flt (Fin 1) (round64 (6 / 10)) then ''Buy '' else ''Sell '') @ ''$''
                 @ py_str (py_round2 (fabs (fsub (fmul (Fin 300) (round64 (2 / 10))) (Fin 100))))
                 @ '' '' @ ''FXNAX''),
               sample_ui\<lparr>target_value := target_value sample_ui
                 @ [py_str (py_round2 (fmul (Fin 300) (round64 (2 / 10))))]\<rparr>)"
    by auto
  then have "buy_or_sell sample_ui (round64 (2 / 10)) (Fin 300) (Fin 100) (Fin 0) 0
               = (Inr ''Sell $40.0 FXNAX'', sample_ui\<lparr>target_value := [''60.0'']\<rparr>)"
    using res by (rule trans)
  with nz ratio test show ?thesis
    by blast
qed

lemma one_in_band:
  "flt (round64 (95 / 100)) (Fin 1) \<and> flt (Fin 1) (round64 (105 / 100))"
  by code_simp

lemma py_int_zero: "py_int (Fin 0) = Inr 0"
  by (simp add: py_int_def)

text \<open>
  C2, as the code has it.  For a fund whose balance is not a zero, \<open>buy_or_sell\<close> answers
  \<open>Looks good for\<close> exactly when \<open>0.95 < ratio < 1.05\<close> and \<open>int(money_to_invest)\<close> is 0,
  that is when the new money, cut off towards zero, is nothing: a float strictly between
  \<open>-1\<close> and \<open>1\<close>.  At a ratio of exactly 1.0 with no new money the answer is Hold.
\<close>

theorem hold_iff_in_band_and_truncated_money_zero:
  assumes "\<not> is_zero current"
    and "table_cell (st\<lparr>target_value :=
           target_value st @ [py_str (py_round2 (fmul total' percentage))]\<rparr>) 1 key = Inr name"
  shows "\<exists>ratio. fdiv (fmul total' percentage) current = Inr ratio \<and>
           ((buy_or_sell st percentage total' current money_to_invest key =
               (Inr (''Looks good for '' @ name),
                st\<lparr>target_value :=
                    target_value st @ [py_str (py_round2 (fmul total' percentage))]\<rparr>))
            \<longleftrightarrow> (flt (round64 (95 / 100)) ratio \<and> flt ratio (round64 (105 / 100))
                  \<and> py_int money_to_invest = Inr 0)) \<and>
           (py_int money_to_invest = Inr 0 \<longleftrightarrow>
              money_to_invest = NegZero \<or> (\<exists>q. money_to_invest = Fin q \<and> - 1 < q \<and> q < 1)) \<and>
           (ratio = Fin 1 \<and> money_to_invest = Fin 0 \<longrightarrow>
              buy_or_sell st percentage total' current money_to_invest key =
               (Inr (''Looks good for '' @ name),
                st\<lparr>target_value :=
                    target_value st @ [py_str (py_round2 (fmul total' percentage))]\<rparr>))"
proof -
  from assms(1) obtain ratio where r: "fdiv (fmul total' percentage) current = Inr ratio"
    using fdiv_nonzero by blast
  let ?st' = "st\<lparr>target_value :=
                 target_value st @ [py_str (py_round2 (fmul total' percentage))]\<rparr>"
  let ?hold = "(Inr (''Looks good for '' @ name), ?st')"
  let ?band = "flt (round64 (95 / 100)) ratio \<and> flt ratio (round64 (105 / 100))"
  have iff: "buy_or_sell st percentage total' current money_to_invest key = ?hold
               \<longleftrightarrow> ?band \<and> py_int money_to_invest = Inr 0"
  proof (cases "hold_test ratio money_to_invest")
    case (Inl e)
    then have "buy_or_sell st percentage total' current money_to_invest key = (Inl e, st)"
      using r by (simp add: buy_or_sell_def)
    moreover from Inl have "\<not> (?band \<and> py_int money_to_invest = Inr 0)"
      by (auto simp: hold_test_def split: if_splits sum.splits)
    ultimately show ?thesis by simp
  next
    case (Inr h)
    then have "h \<longleftrightarrow> ?band \<and> py_int money_to_invest = Inr 0"
      by (auto simp: hold_test_def split: if_splits sum.splits)
    moreover have "buy_or_sell st percentage total' current money_to_invest key = ?hold \<longleftrightarrow> h"
      using r Inr assms(2) by (auto simp: buy_or_sell_def Let_def)
    ultimately show ?thesis by simp
  qed
  have at_target: "ratio = Fin 1 \<and> money_to_invest = Fin 0 \<longrightarrow>
      buy_or_sell st percentage total' current money_to_invest key = ?hold"
    using iff one_in_band py_int_zero by auto
  show ?thesis
    using r iff at_target py_int_zero_iff [of money_to_invest] by blast
qed

theorem hold_iff_in_band_and_truncated_money_zero_witness:
  "\<not> is_zero (Fin 64)
   \<and> fdiv (fmul (Fin 128) (Fin (1 / 2))) (Fin 64) = Inr (Fin 1)
   \<and> buy_or_sell sample_ui (Fin (1 / 2)) (Fin 128) (Fin 64) (Fin 0) 2
       = (Inr ''Looks good for FZROX'', sample_ui\<lparr>target_value := [''64.0'']\<rparr>)"
proof -
  have nz: "\<not> is_zero (Fin 64)"
    by (simp add: is_zero_def)
  have cell: "table_cell (sample_ui\<lparr>target_value := target_value sample_ui
                 @ [py_str (py_round2 (fmul (Fin 128) (Fin (1 / 2))))]\<rparr>) 1 2 = Inr ''FZROX''"
    by code_simp
  have ratio: "fdiv (fmul (Fin 128) (Fin (1 / 2))) (Fin 64) = Inr (Fin 1)"
    by code_simp
  have res: "(Inr (''Looks good for '' @ ''FZROX''),
               sample_ui\<lparr>target_value := target_value sample_ui
                 @ [py_str (py_round2 (fmul (Fin 128) (Fin (1 / 2))))]\<rparr>)
              = (Inr ''Looks good for FZROX'' :: py_error + string,
                 sample_ui\<lparr>target_value := [''64.0'']\<rparr>)"
    by code_simp
  from hold_iff_in_band_and_truncated_money_zero [OF nz cell, of "Fin 0"] ratio
  have "buy_or_sell sample_ui (Fin (1 / 2)) (Fin 128) (Fin 64) (Fin 0) 2
          = (Inr (''Looks good for '' @ ''FZROX''),
               sample_ui\<lparr>target_value := target_value sample_ui
                 @ [py_str (py_round2 (fmul (Fin 128) (Fin (1 / 2))))]\<rparr>)"
    by auto
  then have "buy_or_sell sample_ui (Fin (1 / 2)) (Fin 128) (Fin 64) (Fin 0) 2
               = (Inr ''Looks good for FZROX'', sample_ui\<lparr>target_value := [''64.0'']\<rparr>)"
    using res by (rule trans)
  with nz ratio show ?thesis
    by blast
qed

text \<open>
  The claim as the specification states it fails: with half a dollar of new money and a
  ratio of 65/64 inside the band, the answer is still Hold, because \<open>int(0.5)\<close> is 0.
\<close>

theorem hold_with_new_money_counterexample:
  "buy_or_sell sample_ui (Fin (1 / 2)) (Fin 130) (Fin 64) (Fin (1 / 2)) 0
     = (Inr ''Looks good for FXNAX'', sample_ui\<lparr>target_value := [''65.0'']\<rparr>)
   \<and> fdiv (fmul (Fin 130) (Fin (1 / 2))) (Fin 64) = Inr (Fin (65 / 64))
   \<and> flt (round64 (95 / 100)) (Fin (65 / 64)) \<and> flt (Fin (65 / 64)) (round64 (105 / 100))
   \<and> flt (Fin 0) (Fin (1 / 2)) \<and> \<not> feq (Fin (1 / 2)) (Fin 0)"
  by code_simp



section \<open>The glide-path selector\<close>

lemma contains_iff: "contains tok s \<longleftrightarrow> (\<exists>pre post. s = pre @ tok @ post)"
proof (induction s)
  case Nil
  then show ?case by auto
next
  case (Cons c cs)
  have "take (length tok) (c # cs) = tok \<longleftrightarrow> (\<exists>post. c # cs = tok @ post)"
    by (metis append_eq_conv_conj append_take_drop_id)
  moreover have "(\<exists>pre post. c # cs = pre @ tok @ post)
      \<longleftrightarrow> (\<exists>post. c # cs = tok @ post) \<or> (\<exists>pre post. cs = pre @ tok @ post)"
  proof
    assume "\<exists>pre post. c # cs = pre @ tok @ post"
    then obtain pre post where e: "c # cs = pre @ tok @ post" by blast
    show "(\<exists>post. c # cs = tok @ post) \<or> (\<exists>pre post. cs = pre @ tok @ post)"
    proof (cases pre)
      case Nil
      with e show ?thesis by auto
    next
      case (Cons p ps)
      with e have "cs = ps @ tok @ post" by simp
      then show ?thesis by blast
    qed
  next
    assume "(\<exists>post. c # cs = tok @ post) \<or> (\<exists>pre post. cs = pre @ tok @ post)"
    then show "\<exists>pre post. c # cs = pre @ tok @ post"
    proof
      assume "\<exists>post. c # cs = tok @ post"
      then obtain post where "c # cs = [] @ tok @ post" by auto
      then show ?thesis by blast
    next
      assume "\<exists>pre post. cs = pre @ tok @ post"
      then obtain pre post where "c # cs = (c # pre) @ tok @ post" by auto
      then show ?thesis by blast
    qed
  qed
  ultimately show ?case using Cons.IH by simp
qed

lemma glide_sums:
  "sum3 (round64 (2 / 10), round64 (3 / 10), round64 (5 / 10)) = Fin 1"
  "sum3 (round64 (3 / 10), round64 (27 / 100), round64 (43 / 100)) = Fin 1"
  "sum3 (round64 (4 / 10), round64 (23 / 100), round64 (37 / 100)) = Fin 1"
  "sum3 (round64 (5 / 10), round64 (19 / 100), round64 (31 / 100)) = Fin 1"
  "sum3 (round64 (6 / 10), round64 (15 / 100), round64 (25 / 100)) = Fin 1"
  "sum3 (round64 (7 / 10), round64 (11 / 100), round64 (19 / 100)) = Fin 1"
  "sum3 (round64 (8 / 10), round64 (8 / 100), round64 (12 / 100)) = Fin 1"
  "sum3 (round64 (9 / 10), round64 (4 / 100), round64 (6 / 100)) = Fin 1"
  "sum3 (Fin 1, Fin 0, Fin 0) = Fin 1"
  by code_simp+

text \<open>
  C4. Whatever the file name, the three percentages \<open>calculate_strategy\<close> selects add up,
  as floats in the order bond, international, national, to exactly 1.0.  This covers each
  of the eight year tokens and the default.
\<close>

theorem glide_path_sums_to_one: "sum3 (glide_path name) = Fin 1"
  unfolding glide_path_def by (simp only: glide_sums if_distrib [of sum3] if_cancel)

text \<open>
  C5. The chain of tests in \<open>calculate_strategy\<close> is a first-match search of the table of
  year tokens, in the order 2020 to 2090, where a token matches when it occurs in the
  name as a substring; a name that contains none of the tokens gets the all-bonds triple.
\<close>

theorem glide_path_first_match:
  "glide_path name = first_match name
   \<and> (list_all (\<lambda>tok. \<not> contains tok name) year_tokens
        \<longrightarrow> glide_path name = (Fin 1, Fin 0, Fin 0))
   \<and> (contains tok name \<longleftrightarrow> (\<exists>pre post. name = pre @ tok @ post))
   \<and> map fst glide_table = year_tokens"
  by (simp add: glide_path_def first_match_def glide_table_def year_tokens_def
        contains_iff [symmetric] del: contains.simps)


theorem glide_path_first_match_witness:
  "list_all (\<lambda>tok. \<not> contains tok ''/home/u/positions.csv'') year_tokens
   \<and> glide_path ''/home/u/positions.csv'' = (Fin 1, Fin 0, Fin 0)
   \<and> glide_path ''/home/u/Roth_2040_2030.csv'' = first_match ''/home/u/Roth_2040_2030.csv''
   \<and> first_match ''/home/u/Roth_2040_2030.csv''
       = (round64 (3 / 10), round64 (27 / 100), round64 (43 / 100))"
proof -
  have none: "list_all (\<lambda>tok. \<not> contains tok ''/home/u/positions.csv'') year_tokens"
    by code_simp
  have first: "first_match ''/home/u/Roth_2040_2030.csv''
                 = (round64 (3 / 10), round64 (27 / 100), round64 (43 / 100))"
    by code_simp
  from none first show ?thesis
    using glide_path_first_match [of "''/home/u/positions.csv''"]
      glide_path_first_match [of "''/home/u/Roth_2040_2030.csv''"]
    by blast
qed

section \<open>The calculate action and the copy buttons\<close>

lemma py_float_empty: "py_float [] = None"
  by code_simp

text \<open>
  Blanks around a number are dropped, the no-break space and the next line control among
  them, so such an entry is a valid amount; a blank alone, or a number behind the control
  U+001F, is not.
\<close>

lemma py_float_blanks:
  "py_float (CHR 0xA0 # ''5'') = Some (Fin 5)"
  "py_float (CHR 0x85 # ''5'' @ [CHR 0xA0, CHR 0x09]) = Some (Fin 5)"
  "py_float '' 12.5 '' = Some (Fin (25 / 2))"
  "py_float [CHR 0xA0] = None"
  "py_float '' '' = None"
  "py_float (CHR 0x1F # ''5'') = None"
  by code_simp+

lemma calculate_no_break_space:
  "calculate (st\<lparr>entry_lineEdit := CHR 0xA0 # ''5''\<rparr>)
     = calculate_with (st\<lparr>entry_lineEdit := CHR 0xA0 # ''5''\<rparr>) (Fin 5)"
  using py_float_blanks(1) by (simp add: calculate_def)

text \<open>
  C8. With an empty entry \<open>calculate\<close> goes on with the amount 0.00; with any other text
  that \<open>float\<close> rejects it sets the message \<open>You did not enter a valid amount\<close> and returns,
  and that message is its only effect: balances, table, buttons and the report keep their
  values.
\<close>

theorem calculate_blank_or_invalid:
  "(entry_lineEdit st = [] \<longrightarrow> calculate st = calculate_with st (Fin 0))
   \<and> (py_float (entry_lineEdit st) = None \<and> entry_lineEdit st \<noteq> [] \<longrightarrow>
        calculate st = (None, st\<lparr>error_label := ''You did not enter a valid amount''\<rparr>))"
  by (simp add: calculate_def py_float_empty)

theorem calculate_blank_or_invalid_witness:
  "entry_lineEdit sample_ui = []
   \<and> calculate sample_ui = calculate_with sample_ui (Fin 0)
   \<and> py_float (entry_lineEdit (sample_ui\<lparr>entry_lineEdit := ''12,50''\<rparr>)) = None
   \<and> entry_lineEdit (sample_ui\<lparr>entry_lineEdit := ''12,50''\<rparr>) \<noteq> []
   \<and> calculate (sample_ui\<lparr>entry_lineEdit := ''12,50''\<rparr>)
       = (None, sample_ui\<lparr>entry_lineEdit := ''12,50'',
                           error_label := ''You did not enter a valid amount''\<rparr>)"
proof -
  have blank: "entry_lineEdit sample_ui = []"
    by code_simp
  have bad: "py_float (entry_lineEdit (sample_ui\<lparr>entry_lineEdit := ''12,50''\<rparr>)) = None"
    by code_simp
  have nonempty: "entry_lineEdit (sample_ui\<lparr>entry_lineEdit := ''12,50''\<rparr>) \<noteq> []"
    by simp
  from blank bad nonempty show ?thesis
    using calculate_blank_or_invalid [of sample_ui]
      calculate_blank_or_invalid [of "sample_ui\<lparr>entry_lineEdit := ''12,50''\<rparr>"]
    by simp
qed

lemma decimal_number_digits:
  assumes "is_digit c" and "list_all is_digit ds"
  shows "decimal_number (c # ds)"
proof -
  from assms have "takeWhile is_digit (c # ds) = c # ds" "dropWhile is_digit (c # ds) = []"
    by (simp_all add: list_all_iff)
  then show ?thesis
    unfolding decimal_number_def Let_def by simp
qed

lemma dot_not_digit: "\<not> is_digit CHR ''.''"
  by (simp add: is_digit_def)

lemma decimal_number_point:
  assumes "is_digit c" and "list_all is_digit ds" and "fs \<noteq> []" and "list_all is_digit fs"
  shows "decimal_number ((c # ds) @ ''.'' @ fs)"
proof -
  from assms(2) have all: "takeWhile is_digit ds = ds" "dropWhile is_digit ds = []"
    by (simp_all add: list_all_iff)
  have "takeWhile is_digit (ds @ CHR ''.'' # fs) = ds"
    using all by (simp add: takeWhile_tail dot_not_digit)
  moreover have "dropWhile is_digit (ds @ CHR ''.'' # fs) = CHR ''.'' # fs"
    using all by (simp add: dropWhile_append3 dot_not_digit)
  ultimately show ?thesis
    unfolding decimal_number_def Let_def using assms(1,3,4) by simp
qed

lemma takeWhile_all: "list_all P (takeWhile P xs)"
  by (induction xs) simp_all

lemma findall_matches: "list_all decimal_number (findall s)"
proof (induction s rule: findall.induct)
  case 1
  then show ?case by (simp add: findall.simps)
next
  case (2 c cs)
  show ?case
  proof (cases "is_digit c")
    case False
    with 2 show ?thesis by (simp add: findall.simps)
  next
    case True
    note digit = this
    have ds: "decimal_number (c # takeWhile is_digit cs)"
      using True by (rule decimal_number_digits) (rule takeWhile_all)
    show ?thesis
    proof (cases "dropWhile is_digit cs")
      case Nil
      with ds show ?thesis by (simp add: findall.simps(2) [of c cs] Let_def Nil digit)
    next
      case (Cons d r)
      show ?thesis
      proof (cases "d = CHR ''.'' \<and> r \<noteq> [] \<and> is_digit (hd r)")
        case True
        then have "takeWhile is_digit r \<noteq> []"
          by (cases r) auto
        then have "decimal_number ((c # takeWhile is_digit cs) @ ''.'' @ takeWhile is_digit r)"
          using digit takeWhile_all takeWhile_all by (intro decimal_number_point) auto
        moreover have "list_all decimal_number (findall (dropWhile is_digit r))"
          using 2(1) [OF digit refl refl Cons] True by simp
        ultimately show ?thesis
          using True by (simp add: findall.simps(2) [of c cs] Let_def Cons digit)
      next
        case False
        have "list_all decimal_number (findall (dropWhile is_digit cs))"
          using 2(2) [OF digit refl refl Cons] False Cons by auto
        then show ?thesis
          using False ds by (auto simp add: findall.simps(2) [of c cs] Let_def Cons digit)
      qed
    qed
  qed
qed

text \<open>
  C9. The copy buttons put on the clipboard the concatenation of the matches of the
  pattern in the button's text, each match being a decimal number; for the text
  \<open>Buy $40.0 Bond Fund\<close> that is \<open>40.0\<close>.
\<close>

theorem numbers_of_recommendation:
  "list_all decimal_number (findall button_text)
   \<and> numbers_of button_text = concat (findall button_text)
   \<and> clipboard (copy_bond_number st) = numbers_of (bonds_button st)
   \<and> clipboard (copy_international_number st) = numbers_of (international_button st)
   \<and> clipboard (copy_national_number st) = numbers_of (national_button st)
   \<and> findall ''Buy $40.0 Bond Fund'' = [''40.0'']
   \<and> numbers_of ''Buy $40.0 Bond Fund'' = ''40.0''"
proof -
  have "findall ''Buy $40.0 Bond Fund'' = [''40.0'']"
    by code_simp
  moreover have "numbers_of ''Buy $40.0 Bond Fund'' = ''40.0''"
    by code_simp
  ultimately show ?thesis
    using findall_matches [of button_text]
    by (simp add: numbers_of_def copy_bond_number_def copy_international_number_def
          copy_national_number_def)
qed


section \<open>The strategy on the sample portfolio\<close>

lemma buy_or_sell_eval:
  assumes "fmul t p = target" and "fdiv target c = Inr r" and "hold_test r m = Inr h"
    and "flt (Fin 1) r = buy"
    and "py_str (py_round2 (fabs (fsub c target))) = amt" and "py_str (py_round2 target) = tv"
  shows "buy_or_sell st p t c m key =
     (case table_cell (st\<lparr>target_value := target_value st @ [tv]\<rparr>) 1 key of
        Inl e \<Rightarrow> (Inl e, st\<lparr>target_value := target_value st @ [tv]\<rparr>)
      | Inr name \<Rightarrow>
          (Inr ((if h then ''Looks good for ''
                 else (if buy then ''Buy '' else ''Sell '') @ ''$'' @ amt @ '' '') @ name),
           st\<lparr>target_value := target_value st @ [tv]\<rparr>))"
  unfolding buy_or_sell_def Let_def using assms by (auto split: sum.splits)

lemma current_allocation_eval:
  assumes "nth_py (current_balances st) key = Inr c"
    and "fdiv (fmul (Fin 100) c) (fsub t m) = Inr a" and "py_str (py_round2 a) = s"
  shows "current_allocation st t m key = Inr (s @ ''%'')"
  using assms by (simp add: current_allocation_def)

text \<open>
  C3. With the balances 100, 100, 100, no new money and a file name that contains
  \<open>2020\<close>, \<open>calculate_strategy\<close> records the targets 60.0, 90.0 and 150.0 and sets the
  buttons to Sell $40.0, Sell $10.0 and Buy $50.0 of the bond, international and national
  fund; the table gets the rows of current allocations, targets and target allocations.
\<close>

theorem calculate_strategy_2020_example:
  assumes name: "contains ''2020'' (filename st)"
    and bal: "current_balances st = [Fin 100, Fin 100, Fin 100]"
    and names: "nth_py (info_table st) 1 = Inr (Lit [n0, n1, n2])"
  shows "calculate_strategy st (Fin 0) =
     (None, st\<lparr>target_value := [''60.0'', ''90.0'', ''150.0''],
                bonds_button := ''Sell $40.0 '' @ n0,
                international_button := ''Sell $10.0 '' @ n1,
                national_button := ''Buy $50.0 '' @ n2,
                info_table := info_table st @
                  [Lit [''33.33%'', ''33.33%'', ''33.33%''], TargetRef,
                   Lit [''20.0%'', ''30.0%'', ''50.0%'']]\<rparr>)"
proof -
  define b i n where "b = round64 (2 / 10)" and "i = round64 (3 / 10)" and "n = round64 (5 / 10)"
  define r0 r1 r2 where "r0 = round64 (6 / 10)" and "r1 = round64 (9 / 10)" and "r2 = round64 (15 / 10)"
  define a where "a = round64 (100 / 3)"
  have gp: "glide_path (filename st) = (b, i, n)"
    unfolding glide_path_def b_def i_def n_def using name by (simp only: if_True)
  have total: "fadd (Fin 0) (py_sum [Fin 100, Fin 100, Fin 100]) = Fin 300"
    by code_simp
  have f0: "fmul (Fin 300) b = Fin 60" "fdiv (Fin 60) (Fin 100) = Inr r0"
    "hold_test r0 (Fin 0) = Inr False" "flt (Fin 1) r0 = False"
    "py_str (py_round2 (fabs (fsub (Fin 100) (Fin 60)))) = ''40.0''"
    "py_str (py_round2 (Fin 60)) = ''60.0''"
    unfolding b_def r0_def by code_simp+
  have f1: "fmul (Fin 300) i = Fin 90" "fdiv (Fin 90) (Fin 100) = Inr r1"
    "hold_test r1 (Fin 0) = Inr False" "flt (Fin 1) r1 = False"
    "py_str (py_round2 (fabs (fsub (Fin 100) (Fin 90)))) = ''10.0''"
    "py_str (py_round2 (Fin 90)) = ''90.0''"
    unfolding i_def r1_def by code_simp+
  have f2: "fmul (Fin 300) n = Fin 150" "fdiv (Fin 150) (Fin 100) = Inr r2"
    "hold_test r2 (Fin 0) = Inr False" "flt (Fin 1) r2 = True"
    "py_str (py_round2 (fabs (fsub (Fin 100) (Fin 150)))) = ''50.0''"
    "py_str (py_round2 (Fin 150)) = ''150.0''"
    unfolding n_def r2_def by code_simp+
  have al: "fdiv (fmul (Fin 100) (Fin 100)) (fsub (Fin 300) (Fin 0)) = Inr a"
    "py_str (py_round2 a) = ''33.33''"
    unfolding a_def by code_simp+
  have ta: "target_allocation b = ''20.0%''" "target_allocation i = ''30.0%''"
    "target_allocation n = ''50.0%''"
    unfolding b_def i_def n_def by code_simp+
  note bs = buy_or_sell_eval [OF f0] buy_or_sell_eval [OF f1] buy_or_sell_eval [OF f2]
  have row: "\<And>s key. table_cell (s\<lparr>info_table := info_table st\<rparr>) 1 key
                = nth_py (cells (s\<lparr>info_table := info_table st\<rparr>) (Lit [n0, n1, n2])) key"
    using names by (simp add: table_cell_def)
  have cur: "\<And>s key. current_balances s = [Fin 100, Fin 100, Fin 100] \<Longrightarrow> key < 3 \<Longrightarrow>
      current_allocation s (Fin 300) (Fin 0) key = Inr ''33.33%''"
    using current_allocation_eval [OF _ al] by (simp add: nth_py_def nth_Cons' split: if_splits)
  show ?thesis
    unfolding calculate_strategy_def
    using names
    by (simp add: gp total bal advise_def nth_py_def bs table_cell_def cells_def cur ta)
qed


theorem calculate_strategy_2020_example_witness:
  "contains ''2020'' (filename sample_ui)
   \<and> current_balances sample_ui = [Fin 100, Fin 100, Fin 100]
   \<and> nth_py (info_table sample_ui) 1 = Inr (Lit [''FXNAX'', ''FZILX'', ''FZROX''])
   \<and> calculate_strategy sample_ui (Fin 0) =
       (None, sample_ui\<lparr>target_value := [''60.0'', ''90.0'', ''150.0''],
                bonds_button := ''Sell $40.0 '' @ ''FXNAX'',
                international_button := ''Sell $10.0 '' @ ''FZILX'',
                national_button := ''Buy $50.0 '' @ ''FZROX'',
                info_table := info_table sample_ui @
                  [Lit [''33.33%'', ''33.33%'', ''33.33%''], TargetRef,
                   Lit [''20.0%'', ''30.0%'', ''50.0%'']]\<rparr>)"
proof -
  have name: "contains ''2020'' (filename sample_ui)"
    by code_simp
  have bal: "current_balances sample_ui = [Fin 100, Fin 100, Fin 100]"
    by code_simp
  have names: "nth_py (info_table sample_ui) 1 = Inr (Lit [''FXNAX'', ''FZILX'', ''FZROX''])"
    by code_simp
  from name bal names calculate_strategy_2020_example [OF name bal names] show ?thesis
    by blast
qed

section \<open>Loading a positions file\<close>

text \<open>
  A file that cannot be opened or read is reported: the balances become the sentinel
  \<open>[-1]\<close> and the message is set, as the specification asks.
\<close>

lemma open_csv_missing_file:
  "fs chosen = None \<Longrightarrow>
   open_csv fs chosen st =
     (None, st\<lparr>filename := chosen, current_balances := [Fin (- 1)],
               error_label := ''you did not enter a csv file''\<rparr>)"
  by (simp add: open_csv_def scrape_values_from_csv_def csv_file_error_def)

lemma scrape_loop_short:
  assumes "\<exists>i \<in> set is. length csv_list \<le> i"
  shows "\<exists>e st'. scrape_loop csv_list is temp_names temp_balances st = (Inl e, st')"
  using assms
proof (induction "is" arbitrary: temp_names temp_balances st)
  case Nil
  then show ?case by simp
next
  case (Cons i "is")
  show ?case
  proof (cases "length csv_list \<le> i")
    case True
    then show ?thesis by (simp add: csv_cell_def nth_py_def)
  next
    case False
    with Cons.prems have "\<exists>i \<in> set is. length csv_list \<le> i" by auto
    from Cons.IH [OF this] show ?thesis
      by (auto simp: Let_def split: sum.splits option.splits)
  qed
qed

lemma open_csv_short_file:
  assumes "fs chosen = Some rows" and "length rows < 5"
  shows "\<exists>e st'. open_csv fs chosen st = (Some e, st')"
proof -
  from assms(2) have "\<exists>i \<in> set [2, 3, 4]. length rows \<le> i" by auto
  from scrape_loop_short [OF this] obtain e st' where
    "scrape_loop rows [2, 3, 4] [] []
       (st\<lparr>filename := chosen, current_balances := [], info_table := [Lit header]\<rparr>) = (Inl e, st')"
    by blast
  with assms(1) show ?thesis
    by (simp add: open_csv_def scrape_values_from_csv_def)
qed

text \<open>
  C7 asks the same of a file with fewer than five rows.  There the method raises instead
  (\<open>open_csv_short_file\<close>): the rows are taken apart outside the \<open>try\<close>.  With a file of
  three rows, loaded over the sample state, \<open>IndexError\<close> leaves \<open>open_csv\<close> after the
  table has been cut back to its heading and one balance has been stored.
\<close>

theorem open_csv_three_rows_raises:
  "open_csv (one_file ''/home/u/Portfolio_2020.csv''
              (take 3 (positions ''$100.00'' ''$100.00'' ''$100.00'')))
     ''/home/u/Portfolio_2020.csv'' sample_ui
   = (Some IndexError, sample_ui\<lparr>info_table := [Lit header], current_balances := [Fin 100]\<rparr>)"
  by code_simp

section \<open>The table after \<open>calculate\<close>\<close>

lemma open_csv_penny:
  "open_csv (one_file ''/home/u/Portfolio_2020.csv'' (positions ''0.01'' ''0.01'' ''0.01''))
     ''/home/u/Portfolio_2020.csv'' init_ui = (None, penny_ui)"
  by code_simp

text \<open>
  C10 says that \<open>calculate\<close> leaves the table with the three rows it had.  The loop of
  line 287 removes, three times, the first row equal to the last one.  When the file gives
  the balances as \<open>0.01\<close>, the row of rounded targets is equal to the row of balances, so
  the row of balances is removed in its place and the row of current allocations stays.
\<close>

theorem calculate_penny_table:
  "fst (calculate penny_ui) = None
   \<and> info_table penny_ui
       = [Lit header, Lit [''FXNAX'', ''FZILX'', ''FZROX''], Lit [''0.01'', ''0.01'', ''0.01'']]
   \<and> info_table (snd (calculate penny_ui))
       = [Lit header, Lit [''FXNAX'', ''FZILX'', ''FZROX''],
          Lit [''33.33%'', ''33.33%'', ''33.33%'']]"
  by code_simp

end
